theory Spec2Isabelle
  imports Main
begin

section \<open>Result model (checks/base.py)\<close>

text \<open>
  Python strings are modelled as \<open>string\<close>; a character outside ASCII is the sequence of
  its UTF-8 bytes, as stored in the source file. Python integers are \<open>int\<close>.
  A value of type \<open>Any\<close> (the entries of \<open>details\<close>, and the documents built by
  \<open>to_dict\<close>) is a \<open>pyvalue\<close>; a dictionary is an association list in insertion order,
  a float is given by its \<open>repr\<close>. An object that is neither a scalar, a list nor a
  dictionary is one of two kinds, both of which \<open>copy.deepcopy\<close> can copy:
  \<^item> \<open>PObj t\<close>: an object whose \<open>str\<close> is determined by its value (a date, say) and
    is the text \<open>t\<close>;
  \<^item> \<open>PRef cls a\<close>: an object of class \<open>cls\<close> living at address \<open>a\<close> whose \<open>str\<close> is
    the default \<open>object.__repr__\<close>, which prints that address.
\<close>

datatype pyvalue =
    PNone
  | PBool bool
  | PInt int
  | PFloat string
  | PStr string
  | PList "pyvalue list"
  | PDict "(string \<times> pyvalue) list"
  | PObj string
  | PRef string nat

record CheckResult =
  name :: string
  status :: string
  message :: string
  details :: "(string \<times> pyvalue) list"

definition is_pass :: "CheckResult \<Rightarrow> bool" where
  "is_pass self = (status self \<in> set [''PASS'', ''FIXED''])"

definition is_fail :: "CheckResult \<Rightarrow> bool" where
  "is_fail self = (status self = ''FAIL'')"

definition is_warn :: "CheckResult \<Rightarrow> bool" where
  "is_warn self = (status self = ''WARN'')"




definition to_log_line :: "CheckResult \<Rightarrow> string" where
  "to_log_line self = status self @ '': '' @ name self @ '' - '' @ message self"

record ValidationReport =
  lab_sku :: string
  timestamp :: string
  min_exp_date :: string
  max_exp_date :: string
  ssl_checks :: "CheckResult list"
  license_checks :: "CheckResult list"
  ntp_checks :: "CheckResult list"
  vm_config_checks :: "CheckResult list"
  vm_resource_checks :: "CheckResult list"
  password_expiration_checks :: "CheckResult list"
  linux_checks :: "CheckResult list"
  windows_checks :: "CheckResult list"
  url_checks :: "CheckResult list"
  vsphere_checks :: "CheckResult list"
  inventory_checks :: "CheckResult list"
  overall_status :: string

text \<open>
  The dataclass constructor followed by \<open>__post_init__\<close>. The caller gives the four
  scalar fields (\<open>timestamp\<close>, \<open>min_exp_date\<close>, \<open>max_exp_date\<close> default to the empty
  string); the eleven lists take their default, a fresh empty list, and
  \<open>overall_status\<close> its default \<open>PASS\<close>. \<open>now\<close> is the clock reading
  \<open>datetime.datetime.now().isoformat()\<close>, used when no timestamp was given.
\<close>

definition ValidationReport_new ::
  "string \<Rightarrow> string \<Rightarrow> string \<Rightarrow> string \<Rightarrow> string \<Rightarrow> ValidationReport" where
  "ValidationReport_new now sku ts mn mx =
     \<lparr> lab_sku = sku,
       timestamp = (if ts = [] then now else ts),
       min_exp_date = mn,
       max_exp_date = mx,
       ssl_checks = [], license_checks = [], ntp_checks = [],
       vm_config_checks = [], vm_resource_checks = [],
       password_expiration_checks = [], linux_checks = [],
       windows_checks = [], url_checks = [], vsphere_checks = [],
       inventory_checks = [],
       overall_status = ''PASS'' \<rparr>"

definition get_all_checks :: "ValidationReport \<Rightarrow> CheckResult list" where
  "get_all_checks self =
     ssl_checks self @
     license_checks self @
     ntp_checks self @
     vm_config_checks self @
     vm_resource_checks self @
     password_expiration_checks self @
     linux_checks self @
     windows_checks self @
     url_checks self @
     vsphere_checks self @
     inventory_checks self"

text \<open>
  \<open>calculate_overall_status\<close> assigns the field and returns it: the model returns the
  value together with the updated report.
\<close>

definition calculate_overall_status :: "ValidationReport \<Rightarrow> string \<times> ValidationReport" where
  "calculate_overall_status self =
     (let all_checks = get_all_checks self;
          self' = (if list_ex (\<lambda>c. status c = ''FAIL'') all_checks
                   then self\<lparr>overall_status := ''FAIL''\<rparr>
                   else if list_ex (\<lambda>c. status c = ''WARN'') all_checks
                   then self\<lparr>overall_status := ''WARN''\<rparr>
                   else self\<lparr>overall_status := ''PASS''\<rparr>)
      in (overall_status self', self'))"

text \<open>\<open>sum(1 for c in xs if p(c))\<close>.\<close>

definition sum_ones :: "('a \<Rightarrow> bool) \<Rightarrow> 'a list \<Rightarrow> int" where
  "sum_ones p xs = sum_list (map (\<lambda>c. 1) (filter p xs))"

definition get_summary :: "ValidationReport \<Rightarrow> (string \<times> int) list" where
  "get_summary self =
     (let all_checks = get_all_checks self in
      [(''pass'', sum_ones (\<lambda>c. status c \<in> set [''PASS'', ''FIXED'']) all_checks),
       (''fail'', sum_ones (\<lambda>c. status c = ''FAIL'') all_checks),
       (''warn'', sum_ones (\<lambda>c. status c = ''WARN'') all_checks),
       (''info'', sum_ones (\<lambda>c. status c = ''INFO'') all_checks),
       (''skipped'', sum_ones (\<lambda>c. status c = ''SKIPPED'') all_checks),
       (''total'', int (length all_checks))])"







text \<open>\<open>d.get(k, default)\<close> on a dictionary literal.\<close>

definition dict_get :: "('k \<times> 'v) list \<Rightarrow> 'k \<Rightarrow> 'v \<Rightarrow> 'v" where
  "dict_get d k dflt = (case map_of d k of Some v \<Rightarrow> v | None \<Rightarrow> dflt)"

definition icons :: "(string \<times> string) list" where
  "icons =
     [(''PASS'', [CHR 0xC3, CHR 0xA2, CHR 0xC5, CHR 0x93, CHR 0xE2, CHR 0x80, CHR 0xA6]),
      (''FAIL'', [CHR 0xC3, CHR 0xA2, CHR 0xC5, CHR 0x92]),
      (''WARN'', [CHR 0xC3, CHR 0xA2, CHR 0xC5, CHR 0xA1, CHR 0xC2, CHR 0xA0, CHR 0xC3, CHR 0xAF,
                  CHR 0xC2, CHR 0xB8]),
      (''INFO'', [CHR 0xC3, CHR 0xA2, CHR 0xE2, CHR 0x80, CHR 0x9E, CHR 0xC2, CHR 0xB9, CHR 0xC3,
                  CHR 0xAF, CHR 0xC2, CHR 0xB8]),
      (''SKIPPED'', [CHR 0xC3, CHR 0xA2, CHR 0xC2, CHR 0xAD, CHR 0xC3, CHR 0xAF, CHR 0xC2, CHR 0xB8]),
      (''FIXED'', [CHR 0xC3, CHR 0xB0, CHR 0xC5, CHR 0xB8, CHR 0xE2, CHR 0x80, CHR 0x9D, CHR 0xC2,
                   CHR 0xA7])]"

definition unknown_icon :: string where
  "unknown_icon = [CHR 0xC3, CHR 0xA2, CHR 0xE2, CHR 0x80, CHR 0x9C]"

definition get_status_icon :: "string \<Rightarrow> string" where
  "get_status_icon st = dict_get icons st unknown_icon"

definition classes :: "(string \<times> string) list" where
  "classes =
     [(''PASS'', ''status-pass''),
      (''FAIL'', ''status-fail''),
      (''WARN'', ''status-warn''),
      (''INFO'', ''status-info''),
      (''SKIPPED'', ''status-skipped''),
      (''FIXED'', ''status-fixed'')]"

definition get_status_class :: "string \<Rightarrow> string" where
  "get_status_class st = dict_get classes st ''status-unknown''"

section \<open>Category lists\<close>

text \<open>
  The eleven list attributes of a report. \<open>checks_of\<close> reads one of them;
  \<open>extend_checks\<close> is \<open>report.<category>.extend(results)\<close>, and
  \<open>report.<category>.append(c)\<close> is \<open>extend_checks\<close> with the one-element list.
\<close>

datatype category =
    Ssl | License | Ntp | VmConfig | VmResource | PasswordExpiration
  | Linux | Windows | Url | Vsphere | Inventory

fun checks_of :: "category \<Rightarrow> ValidationReport \<Rightarrow> CheckResult list" where
  "checks_of Ssl r = ssl_checks r"
| "checks_of License r = license_checks r"
| "checks_of Ntp r = ntp_checks r"
| "checks_of VmConfig r = vm_config_checks r"
| "checks_of VmResource r = vm_resource_checks r"
| "checks_of PasswordExpiration r = password_expiration_checks r"
| "checks_of Linux r = linux_checks r"
| "checks_of Windows r = windows_checks r"
| "checks_of Url r = url_checks r"
| "checks_of Vsphere r = vsphere_checks r"
| "checks_of Inventory r = inventory_checks r"

fun extend_checks :: "category \<Rightarrow> CheckResult list \<Rightarrow> ValidationReport \<Rightarrow> ValidationReport" where
  "extend_checks Ssl xs r = r\<lparr>ssl_checks := ssl_checks r @ xs\<rparr>"
| "extend_checks License xs r = r\<lparr>license_checks := license_checks r @ xs\<rparr>"
| "extend_checks Ntp xs r = r\<lparr>ntp_checks := ntp_checks r @ xs\<rparr>"
| "extend_checks VmConfig xs r = r\<lparr>vm_config_checks := vm_config_checks r @ xs\<rparr>"
| "extend_checks VmResource xs r = r\<lparr>vm_resource_checks := vm_resource_checks r @ xs\<rparr>"
| "extend_checks PasswordExpiration xs r =
     r\<lparr>password_expiration_checks := password_expiration_checks r @ xs\<rparr>"
| "extend_checks Linux xs r = r\<lparr>linux_checks := linux_checks r @ xs\<rparr>"
| "extend_checks Windows xs r = r\<lparr>windows_checks := windows_checks r @ xs\<rparr>"
| "extend_checks Url xs r = r\<lparr>url_checks := url_checks r @ xs\<rparr>"
| "extend_checks Vsphere xs r = r\<lparr>vsphere_checks := vsphere_checks r @ xs\<rparr>"
| "extend_checks Inventory xs r = r\<lparr>inventory_checks := inventory_checks r @ xs\<rparr>"

definition all_categories :: "category list" where
  "all_categories =
     [Ssl, License, Ntp, VmConfig, VmResource, PasswordExpiration,
      Linux, Windows, Url, Vsphere, Inventory]"

section \<open>Configuration (autocheck_config.py)\<close>


section \<open>Report rendering (autocheck_report.py)\<close>






text \<open>
  \<open>summary[key]\<close> on the dictionary \<open>get_summary\<close> returns. The renderer asks for the
  five count keys only, which are always present.
\<close>

definition summary_item :: "(string \<times> int) list \<Rightarrow> string \<Rightarrow> int" where
  "summary_item summary k = the (map_of summary k)"











section \<open>Orchestrator (autocheck.py)\<close>










section \<open>Values printed by value\<close>


section \<open>Sample inputs\<close>

definition sample_result :: "string \<Rightarrow> string \<Rightarrow> CheckResult" where
  "sample_result n s = \<lparr>name = n, status = s, message = ''checked'', details = []\<rparr>"

definition empty_report :: ValidationReport where
  "empty_report = ValidationReport_new ''2026-02-01T10:00:00'' ''HOL-2701'' [] ''2027-12-30'' ''2028-12-31''"

text \<open>One failed certificate, one licence warning and one licence pass.\<close>

definition sample_report :: ValidationReport where
  "sample_report =
     extend_checks License [sample_result ''License: a'' ''WARN'', sample_result ''License: b'' ''PASS'']
       (extend_checks Ssl [sample_result ''SSL: vcenter.lab:443'' ''FAIL''] empty_report)"






text \<open>The eleven category lists of a report, in the order of the class declaration.\<close>

abbreviation category_lists :: "ValidationReport \<Rightarrow> CheckResult list list" where
  "category_lists r \<equiv>
     [ssl_checks r, license_checks r, ntp_checks r, vm_config_checks r, vm_resource_checks r,
      password_expiration_checks r, linux_checks r, windows_checks r, url_checks r,
      vsphere_checks r, inventory_checks r]"

section \<open>Auxiliary facts\<close>

lemma sum_ones_length: "sum_ones p xs = int (length (filter p xs))"
  by (induction xs) (simp_all add: sum_ones_def)

lemma get_all_checks_concat: "get_all_checks r = concat (category_lists r)"
  by (simp add: get_all_checks_def)


lemma get_all_checks_extend:
  "set (get_all_checks (extend_checks cat xs r)) = set (get_all_checks r) \<union> set xs"
  by (cases cat) (auto simp: get_all_checks_def)

lemma list_ex_extend:
  "list_ex p (get_all_checks (extend_checks cat xs r)) \<longleftrightarrow> list_ex p (get_all_checks r) \<or> list_ex p xs"
  by (simp add: list_ex_iff get_all_checks_extend bex_Un)

lemma overall_status_extend: "overall_status (extend_checks cat xs r) = overall_status r"
  by (cases cat) simp_all

lemma calculate_overall_status_fst:
  "fst (calculate_overall_status r) =
     (if list_ex (\<lambda>c. status c = ''FAIL'') (get_all_checks r) then ''FAIL''
      else if list_ex (\<lambda>c. status c = ''WARN'') (get_all_checks r) then ''WARN''
      else ''PASS'')"
  by (simp add: calculate_overall_status_def Let_def)

section \<open>Single results\<close>

text \<open>
  C9. For every \<open>CheckResult\<close>, \<open>is_pass\<close> holds exactly when the status is
  \<open>PASS\<close> or \<open>FIXED\<close>, and \<open>is_fail\<close> holds exactly when the status is \<open>FAIL\<close>.
\<close>

theorem is_pass_is_fail_iff:
  "(is_pass c \<longleftrightarrow> status c = ''PASS'' \<or> status c = ''FIXED'') \<and>
   (is_fail c \<longleftrightarrow> status c = ''FAIL'')"
  by (auto simp: is_pass_def is_fail_def)

section \<open>The aggregate view\<close>

text \<open>
  C10. \<open>get_all_checks\<close> is the concatenation of the eleven category lists in the order
  ssl, license, ntp, vm_config, vm_resource, password_expiration, linux, windows, url,
  vsphere, inventory, each list kept in its own order; its length is the sum of the
  eleven lengths.
\<close>

theorem get_all_checks_is_concatenation:
  "get_all_checks r = concat (map (\<lambda>cat. checks_of cat r) all_categories) \<and>
   all_categories =
     [Ssl, License, Ntp, VmConfig, VmResource, PasswordExpiration,
      Linux, Windows, Url, Vsphere, Inventory] \<and>
   get_all_checks r =
     ssl_checks r @ license_checks r @ ntp_checks r @ vm_config_checks r @
     vm_resource_checks r @ password_expiration_checks r @ linux_checks r @
     windows_checks r @ url_checks r @ vsphere_checks r @ inventory_checks r \<and>
   length (get_all_checks r) =
     length (ssl_checks r) + length (license_checks r) + length (ntp_checks r) +
     length (vm_config_checks r) + length (vm_resource_checks r) +
     length (password_expiration_checks r) + length (linux_checks r) +
     length (windows_checks r) + length (url_checks r) + length (vsphere_checks r) +
     length (inventory_checks r)"
  by (simp add: get_all_checks_def all_categories_def)

section \<open>Status reduction\<close>

text \<open>
  C1. \<open>calculate_overall_status\<close> returns \<open>FAIL\<close> if and only if some result in one
  of the eleven category lists has status \<open>FAIL\<close>; otherwise \<open>WARN\<close> if and only if
  some result has status \<open>WARN\<close>; otherwise \<open>PASS\<close>. The returned value is also the
  one stored in the field. A report whose eleven lists are all empty, whatever its other
  fields hold, reduces to \<open>PASS\<close>.
\<close>

theorem calculate_overall_status_precedence:
  "fst (calculate_overall_status r) =
     (if \<exists>xs \<in> set (category_lists r). \<exists>c \<in> set xs. status c = ''FAIL'' then ''FAIL''
      else if \<exists>xs \<in> set (category_lists r). \<exists>c \<in> set xs. status c = ''WARN'' then ''WARN''
      else ''PASS'') \<and>
   overall_status (snd (calculate_overall_status r)) = fst (calculate_overall_status r) \<and>
   fst (calculate_overall_status
     \<lparr> lab_sku = sku, timestamp = ts, min_exp_date = mn, max_exp_date = mx,
       ssl_checks = [], license_checks = [], ntp_checks = [],
       vm_config_checks = [], vm_resource_checks = [],
       password_expiration_checks = [], linux_checks = [],
       windows_checks = [], url_checks = [], vsphere_checks = [],
       inventory_checks = [], overall_status = st \<rparr>) = ''PASS''"
proof (intro conjI)
  have ex: "list_ex p (get_all_checks r) \<longleftrightarrow> (\<exists>xs \<in> set (category_lists r). \<exists>c \<in> set xs. p c)" for p
    by (simp add: get_all_checks_def list_ex_iff bex_Un)
  show "fst (calculate_overall_status r) =
     (if \<exists>xs \<in> set (category_lists r). \<exists>c \<in> set xs. status c = ''FAIL'' then ''FAIL''
      else if \<exists>xs \<in> set (category_lists r). \<exists>c \<in> set xs. status c = ''WARN'' then ''WARN''
      else ''PASS'')"
    unfolding calculate_overall_status_fst ex ..
  show "overall_status (snd (calculate_overall_status r)) = fst (calculate_overall_status r)"
    by (simp add: calculate_overall_status_def Let_def)
  show "fst (calculate_overall_status
     \<lparr> lab_sku = sku, timestamp = ts, min_exp_date = mn, max_exp_date = mx,
       ssl_checks = [], license_checks = [], ntp_checks = [],
       vm_config_checks = [], vm_resource_checks = [],
       password_expiration_checks = [], linux_checks = [],
       windows_checks = [], url_checks = [], vsphere_checks = [],
       inventory_checks = [], overall_status = st \<rparr>) = ''PASS''"
    by (simp add: calculate_overall_status_fst get_all_checks_def)
qed

section \<open>Summary counting\<close>

lemma length_filter_concat:
  "int (length (filter p (concat xss))) = (\<Sum>xs\<leftarrow>xss. int (length (filter p xs)))"
  by (induction xss) simp_all

lemma length_filter_pass_fixed:
  "length (filter (\<lambda>c. status c \<in> set [''PASS'', ''FIXED'']) xs) =
     length (filter (\<lambda>c. status c = ''PASS'') xs) + length (filter (\<lambda>c. status c = ''FIXED'') xs)"
  by (induction xs) auto

lemma length_filter_pass_or_fixed:
  "length (filter (\<lambda>c. status c = ''PASS'' \<or> status c = ''FIXED'') xs) =
     length (filter (\<lambda>c. status c = ''PASS'') xs) + length (filter (\<lambda>c. status c = ''FIXED'') xs)"
  by (induction xs) auto

lemma buckets_partition:
  "list_all (\<lambda>c. status c \<in> set [''PASS'', ''FAIL'', ''WARN'', ''INFO'', ''SKIPPED'', ''FIXED'']) xs \<Longrightarrow>
   length (filter (\<lambda>c. status c \<in> set [''PASS'', ''FIXED'']) xs) +
   length (filter (\<lambda>c. status c = ''FAIL'') xs) +
   length (filter (\<lambda>c. status c = ''WARN'') xs) +
   length (filter (\<lambda>c. status c = ''INFO'') xs) +
   length (filter (\<lambda>c. status c = ''SKIPPED'') xs) = length xs"
  by (induction xs) auto

text \<open>
  C2. \<open>get_summary\<close> returns a mapping with exactly the keys \<open>pass\<close>, \<open>fail\<close>,
  \<open>warn\<close>, \<open>info\<close>, \<open>skipped\<close>, \<open>total\<close>. \<open>pass\<close> is the number of results with
  status \<open>PASS\<close> plus the number with status \<open>FIXED\<close>; \<open>fail\<close>, \<open>warn\<close>, \<open>info\<close>
  and \<open>skipped\<close> count the results with exactly that status; \<open>total\<close> is the number of
  all results in the eleven lists. When every status is one of the six values, the five
  bucket counts add up to \<open>total\<close>.
\<close>

theorem get_summary_counts:
  "map fst (get_summary r) = [''pass'', ''fail'', ''warn'', ''info'', ''skipped'', ''total''] \<and>
   map_of (get_summary r) ''pass'' =
     Some ((\<Sum>xs\<leftarrow>category_lists r. int (length (filter (\<lambda>c. status c = ''PASS'') xs))) +
           (\<Sum>xs\<leftarrow>category_lists r. int (length (filter (\<lambda>c. status c = ''FIXED'') xs)))) \<and>
   map_of (get_summary r) ''fail'' =
     Some (\<Sum>xs\<leftarrow>category_lists r. int (length (filter (\<lambda>c. status c = ''FAIL'') xs))) \<and>
   map_of (get_summary r) ''warn'' =
     Some (\<Sum>xs\<leftarrow>category_lists r. int (length (filter (\<lambda>c. status c = ''WARN'') xs))) \<and>
   map_of (get_summary r) ''info'' =
     Some (\<Sum>xs\<leftarrow>category_lists r. int (length (filter (\<lambda>c. status c = ''INFO'') xs))) \<and>
   map_of (get_summary r) ''skipped'' =
     Some (\<Sum>xs\<leftarrow>category_lists r. int (length (filter (\<lambda>c. status c = ''SKIPPED'') xs))) \<and>
   map_of (get_summary r) ''total'' = Some (\<Sum>xs\<leftarrow>category_lists r. int (length xs)) \<and>
   (list_all (\<lambda>c. status c \<in> set [''PASS'', ''FAIL'', ''WARN'', ''INFO'', ''SKIPPED'', ''FIXED''])
        (concat (category_lists r)) \<longrightarrow>
      summary_item (get_summary r) ''pass'' + summary_item (get_summary r) ''fail'' +
      summary_item (get_summary r) ''warn'' + summary_item (get_summary r) ''info'' +
      summary_item (get_summary r) ''skipped'' = summary_item (get_summary r) ''total'')"
proof -
  let ?all = "get_all_checks r"
  have keys: "map fst (get_summary r) = [''pass'', ''fail'', ''warn'', ''info'', ''skipped'', ''total'']"
    by (simp add: get_summary_def Let_def)
  have cnt: "int (length (filter p ?all)) = (\<Sum>xs\<leftarrow>category_lists r. int (length (filter p xs)))" for p
    unfolding get_all_checks_concat by (rule length_filter_concat)
  have pass: "map_of (get_summary r) ''pass'' =
      Some (int (length (filter (\<lambda>c. status c = ''PASS'') ?all)) +
            int (length (filter (\<lambda>c. status c = ''FIXED'') ?all)))"
    by (simp add: get_summary_def Let_def sum_ones_length length_filter_pass_or_fixed)
  have fail: "map_of (get_summary r) ''fail'' = Some (int (length (filter (\<lambda>c. status c = ''FAIL'') ?all)))"
    by (simp add: get_summary_def Let_def sum_ones_length)
  have warn: "map_of (get_summary r) ''warn'' = Some (int (length (filter (\<lambda>c. status c = ''WARN'') ?all)))"
    by (simp add: get_summary_def Let_def sum_ones_length)
  have info: "map_of (get_summary r) ''info'' = Some (int (length (filter (\<lambda>c. status c = ''INFO'') ?all)))"
    by (simp add: get_summary_def Let_def sum_ones_length)
  have skipped: "map_of (get_summary r) ''skipped'' =
      Some (int (length (filter (\<lambda>c. status c = ''SKIPPED'') ?all)))"
    by (simp add: get_summary_def Let_def sum_ones_length)
  have total: "map_of (get_summary r) ''total'' = Some (int (length ?all))"
    by (simp add: get_summary_def Let_def)
  have total': "int (length ?all) = (\<Sum>xs\<leftarrow>category_lists r. int (length xs))"
    by (simp add: get_all_checks_def)
  have sum: "summary_item (get_summary r) ''pass'' + summary_item (get_summary r) ''fail'' +
      summary_item (get_summary r) ''warn'' + summary_item (get_summary r) ''info'' +
      summary_item (get_summary r) ''skipped'' = summary_item (get_summary r) ''total''"
    if ok: "list_all (\<lambda>c. status c \<in> set [''PASS'', ''FAIL'', ''WARN'', ''INFO'', ''SKIPPED'', ''FIXED''])
        (concat (category_lists r))"
  proof -
    from ok have "list_all (\<lambda>c. status c \<in> set [''PASS'', ''FAIL'', ''WARN'', ''INFO'', ''SKIPPED'', ''FIXED'']) ?all"
      unfolding get_all_checks_concat .
    from buckets_partition [OF this]
    have "int (length (filter (\<lambda>c. status c = ''PASS'') ?all)) +
          int (length (filter (\<lambda>c. status c = ''FIXED'') ?all)) +
          int (length (filter (\<lambda>c. status c = ''FAIL'') ?all)) +
          int (length (filter (\<lambda>c. status c = ''WARN'') ?all)) +
          int (length (filter (\<lambda>c. status c = ''INFO'') ?all)) +
          int (length (filter (\<lambda>c. status c = ''SKIPPED'') ?all)) = int (length ?all)"
      unfolding length_filter_pass_fixed by linarith
    then show ?thesis
      unfolding summary_item_def pass fail warn info skipped total by simp
  qed
  show ?thesis
    using keys pass fail warn info skipped total sum
    unfolding cnt total' by blast
qed

theorem get_summary_counts_witness:
  "list_all (\<lambda>c. status c \<in> set [''PASS'', ''FAIL'', ''WARN'', ''INFO'', ''SKIPPED'', ''FIXED''])
     (concat (category_lists sample_report)) \<and>
   map_of (get_summary sample_report) ''pass'' = Some 1 \<and>
   map_of (get_summary sample_report) ''fail'' = Some 1 \<and>
   map_of (get_summary sample_report) ''warn'' = Some 1 \<and>
   map_of (get_summary sample_report) ''info'' = Some 0 \<and>
   map_of (get_summary sample_report) ''skipped'' = Some 0 \<and>
   map_of (get_summary sample_report) ''total'' = Some 3 \<and>
   summary_item (get_summary sample_report) ''pass'' + summary_item (get_summary sample_report) ''fail'' +
   summary_item (get_summary sample_report) ''warn'' + summary_item (get_summary sample_report) ''info'' +
   summary_item (get_summary sample_report) ''skipped'' = summary_item (get_summary sample_report) ''total''"
proof -
  have ok: "list_all (\<lambda>c. status c \<in> set [''PASS'', ''FAIL'', ''WARN'', ''INFO'', ''SKIPPED'', ''FIXED''])
     (concat (category_lists sample_report))"
    by (simp add: sample_report_def empty_report_def ValidationReport_new_def sample_result_def)
  have vals: "category_lists sample_report =
      [[sample_result ''SSL: vcenter.lab:443'' ''FAIL''],
       [sample_result ''License: a'' ''WARN'', sample_result ''License: b'' ''PASS''],
       [], [], [], [], [], [], [], [], []]"
    by (simp add: sample_report_def empty_report_def ValidationReport_new_def)
  from get_summary_counts [of sample_report] ok show ?thesis
    unfolding vals by (simp add: sample_result_def)
qed

section \<open>Neutral statuses\<close>

lemma neutral_extend:
  assumes "list_all (\<lambda>c. status c \<in> set [''INFO'', ''SKIPPED'', ''FIXED'']) xs"
  shows "fst (calculate_overall_status (extend_checks cat xs r)) = fst (calculate_overall_status r)"
proof -
  from assms have "\<not> list_ex (\<lambda>c. status c = ''FAIL'') xs" "\<not> list_ex (\<lambda>c. status c = ''WARN'') xs"
    by (auto simp: list_all_iff list_ex_iff)
  then show ?thesis
    by (simp add: calculate_overall_status_fst list_ex_extend)
qed

lemma neutral_fold:
  "list_all (\<lambda>(cat, xs). list_all (\<lambda>c. status c \<in> set [''INFO'', ''SKIPPED'', ''FIXED'']) xs) appends \<Longrightarrow>
   fst (calculate_overall_status (fold (\<lambda>(cat, xs). extend_checks cat xs) appends r)) =
   fst (calculate_overall_status r)"
proof (induction appends arbitrary: r)
  case Nil
  then show ?case by simp
next
  case (Cons a appends)
  obtain cat xs where a: "a = (cat, xs)" by (cases a)
  from Cons.prems a have xs: "list_all (\<lambda>c. status c \<in> set [''INFO'', ''SKIPPED'', ''FIXED'']) xs"
    and rest: "list_all (\<lambda>(cat, xs). list_all (\<lambda>c. status c \<in> set [''INFO'', ''SKIPPED'', ''FIXED'']) xs) appends"
    by simp_all
  show ?case
    using Cons.IH [OF rest, of "extend_checks cat xs r"] neutral_extend [OF xs, of cat r]
    by (simp add: a)
qed

text \<open>
  C3. Results with status \<open>INFO\<close>, \<open>SKIPPED\<close> or \<open>FIXED\<close> do not influence the overall
  status: extending any category lists, any number of times, by results with these
  statuses leaves the value of \<open>calculate_overall_status\<close> unchanged. A report that holds
  one \<open>FIXED\<close> result and nothing else has overall status \<open>PASS\<close> and \<open>pass\<close> count 1.
\<close>

theorem neutral_statuses_keep_overall_status:
  "(list_all (\<lambda>(cat, xs). list_all (\<lambda>c. status c \<in> set [''INFO'', ''SKIPPED'', ''FIXED'']) xs) appends \<longrightarrow>
      fst (calculate_overall_status (fold (\<lambda>(cat, xs). extend_checks cat xs) appends r)) =
      fst (calculate_overall_status r)) \<and>
   (status c = ''FIXED'' \<longrightarrow>
      fst (calculate_overall_status (extend_checks cat [c]
        \<lparr> lab_sku = sku, timestamp = ts, min_exp_date = mn, max_exp_date = mx,
          ssl_checks = [], license_checks = [], ntp_checks = [],
          vm_config_checks = [], vm_resource_checks = [],
          password_expiration_checks = [], linux_checks = [],
          windows_checks = [], url_checks = [], vsphere_checks = [],
          inventory_checks = [], overall_status = st \<rparr>)) = ''PASS'' \<and>
      map_of (get_summary (extend_checks cat [c]
        \<lparr> lab_sku = sku, timestamp = ts, min_exp_date = mn, max_exp_date = mx,
          ssl_checks = [], license_checks = [], ntp_checks = [],
          vm_config_checks = [], vm_resource_checks = [],
          password_expiration_checks = [], linux_checks = [],
          windows_checks = [], url_checks = [], vsphere_checks = [],
          inventory_checks = [], overall_status = st \<rparr>)) ''pass'' = Some 1)"
proof (intro conjI impI)
  assume "list_all (\<lambda>(cat, xs). list_all (\<lambda>c. status c \<in> set [''INFO'', ''SKIPPED'', ''FIXED'']) xs) appends"
  then show "fst (calculate_overall_status (fold (\<lambda>(cat, xs). extend_checks cat xs) appends r)) =
      fst (calculate_overall_status r)"
    by (rule neutral_fold)
next
  let ?r0 = "\<lparr> lab_sku = sku, timestamp = ts, min_exp_date = mn, max_exp_date = mx,
          ssl_checks = [], license_checks = [], ntp_checks = [],
          vm_config_checks = [], vm_resource_checks = [],
          password_expiration_checks = [], linux_checks = [],
          windows_checks = [], url_checks = [], vsphere_checks = [],
          inventory_checks = [], overall_status = st \<rparr>"
  assume fixed: "status c = ''FIXED''"
  have all: "get_all_checks (extend_checks cat [c] ?r0) = [c]"
    by (cases cat) (simp_all add: get_all_checks_def)
  show "fst (calculate_overall_status (extend_checks cat [c] ?r0)) = ''PASS''"
    by (simp add: calculate_overall_status_fst all fixed)
  show "map_of (get_summary (extend_checks cat [c] ?r0)) ''pass'' = Some 1"
    by (simp add: get_summary_def Let_def all sum_ones_def fixed)
qed

theorem neutral_statuses_keep_overall_status_witness:
  "fst (calculate_overall_status
     (fold (\<lambda>(cat, xs). extend_checks cat xs)
        [(Ssl, [sample_result ''SSL: esx-01'' ''INFO'']),
         (Linux, [sample_result ''Linux: vc'' ''SKIPPED'', sample_result ''Linux: esx-02'' ''FIXED''])]
        sample_report)) = ''FAIL'' \<and>
   fst (calculate_overall_status sample_report) = ''FAIL'' \<and>
   fst (calculate_overall_status (extend_checks Ntp [sample_result ''NTP: esx-01'' ''FIXED''] empty_report))
     = ''PASS'' \<and>
   map_of (get_summary (extend_checks Ntp [sample_result ''NTP: esx-01'' ''FIXED''] empty_report)) ''pass''
     = Some 1"
proof -
  have neutral: "list_all (\<lambda>(cat, xs). list_all (\<lambda>c. status c \<in> set [''INFO'', ''SKIPPED'', ''FIXED'']) xs)
        [(Ssl, [sample_result ''SSL: esx-01'' ''INFO'']),
         (Linux, [sample_result ''Linux: vc'' ''SKIPPED'', sample_result ''Linux: esx-02'' ''FIXED''])]"
    by (simp add: sample_result_def)
  have fixed: "status (sample_result ''NTP: esx-01'' ''FIXED'') = ''FIXED''"
    by (simp add: sample_result_def)
  have base: "fst (calculate_overall_status sample_report) = ''FAIL''"
    by (simp add: calculate_overall_status_fst get_all_checks_def sample_report_def empty_report_def
        ValidationReport_new_def sample_result_def)
  note inst = neutral_statuses_keep_overall_status
    [of "[(Ssl, [sample_result ''SSL: esx-01'' ''INFO'']),
         (Linux, [sample_result ''Linux: vc'' ''SKIPPED'', sample_result ''Linux: esx-02'' ''FIXED''])]"
        sample_report "sample_result ''NTP: esx-01'' ''FIXED''" Ntp
        "''HOL-2701''" "''2026-02-01T10:00:00''" "''2027-12-30''" "''2028-12-31''" "''PASS''"]
  have e: "empty_report =
      \<lparr> lab_sku = ''HOL-2701'', timestamp = ''2026-02-01T10:00:00'', min_exp_date = ''2027-12-30'',
        max_exp_date = ''2028-12-31'',
        ssl_checks = [], license_checks = [], ntp_checks = [],
        vm_config_checks = [], vm_resource_checks = [],
        password_expiration_checks = [], linux_checks = [],
        windows_checks = [], url_checks = [], vsphere_checks = [],
        inventory_checks = [], overall_status = ''PASS'' \<rparr>"
    by (simp add: empty_report_def ValidationReport_new_def)
  from inst neutral fixed base show ?thesis
    unfolding e by simp
qed

section \<open>The stored overall status\<close>

text \<open>
  C4. The \<open>overall_status\<close> field is not kept in sync with the category lists. A newly
  built report holds the default \<open>PASS\<close>; extending any category list leaves the field as
  it was; so a new report to which results were added still reads \<open>PASS\<close>, also when a
  \<open>FAIL\<close> or \<open>WARN\<close> result is among them, until \<open>calculate_overall_status\<close> runs.
\<close>

theorem overall_status_is_stale_until_calculated:
  "overall_status (ValidationReport_new now sku ts mn mx) = ''PASS'' \<and>
   overall_status (extend_checks cat xs r) = overall_status r \<and>
   overall_status (fold (\<lambda>(cat, xs). extend_checks cat xs) appends r) = overall_status r \<and>
   overall_status (fold (\<lambda>(cat, xs). extend_checks cat xs) appends (ValidationReport_new now sku ts mn mx))
     = ''PASS'' \<and>
   (list_ex (\<lambda>c. status c = ''FAIL'') xs \<longrightarrow>
      overall_status (extend_checks cat xs (ValidationReport_new now sku ts mn mx)) = ''PASS'' \<and>
      fst (calculate_overall_status (extend_checks cat xs (ValidationReport_new now sku ts mn mx))) = ''FAIL'') \<and>
   (list_ex (\<lambda>c. status c = ''WARN'') xs \<and> \<not> list_ex (\<lambda>c. status c = ''FAIL'') xs \<longrightarrow>
      overall_status (extend_checks cat xs (ValidationReport_new now sku ts mn mx)) = ''PASS'' \<and>
      fst (calculate_overall_status (extend_checks cat xs (ValidationReport_new now sku ts mn mx))) = ''WARN'')"
proof -
  have new: "overall_status (ValidationReport_new now sku ts mn mx) = ''PASS''"
    by (simp add: ValidationReport_new_def)
  have fold: "overall_status (fold (\<lambda>(cat, xs). extend_checks cat xs) aps r') = overall_status r'" for aps r'
    by (induction aps arbitrary: r') (simp_all add: overall_status_extend split: prod.splits)
  have none: "get_all_checks (ValidationReport_new now sku ts mn mx) = []"
    by (simp add: get_all_checks_def ValidationReport_new_def)
  show ?thesis
    by (simp add: new fold overall_status_extend calculate_overall_status_fst list_ex_extend none)
qed

theorem overall_status_is_stale_until_calculated_witness:
  "overall_status sample_report = ''PASS'' \<and>
   fst (calculate_overall_status sample_report) = ''FAIL'' \<and>
   overall_status
     (extend_checks Url [sample_result ''URL: https://vcenter.lab'' ''WARN''] empty_report) = ''PASS'' \<and>
   fst (calculate_overall_status
     (extend_checks Url [sample_result ''URL: https://vcenter.lab'' ''WARN''] empty_report)) = ''WARN''"
proof -
  have f: "list_ex (\<lambda>c. status c = ''FAIL'') [sample_result ''SSL: vcenter.lab:443'' ''FAIL'']"
    and w: "list_ex (\<lambda>c. status c = ''WARN'') [sample_result ''URL: https://vcenter.lab'' ''WARN'']"
    and nf: "\<not> list_ex (\<lambda>c. status c = ''FAIL'') [sample_result ''URL: https://vcenter.lab'' ''WARN'']"
    by (simp_all add: sample_result_def)
  have stale: "overall_status sample_report = ''PASS''"
    using overall_status_is_stale_until_calculated
      [of "''2026-02-01T10:00:00''" "''HOL-2701''" "[]" "''2027-12-30''" "''2028-12-31''" Ssl
          "[sample_result ''SSL: vcenter.lab:443'' ''FAIL'']" empty_report
          "[(Ssl, [sample_result ''SSL: vcenter.lab:443'' ''FAIL'']),
            (License, [sample_result ''License: a'' ''WARN'', sample_result ''License: b'' ''PASS''])]"]
    by (simp add: sample_report_def empty_report_def)
  have calc: "fst (calculate_overall_status sample_report) = ''FAIL''"
    by (simp add: calculate_overall_status_fst get_all_checks_def sample_report_def empty_report_def
        ValidationReport_new_def sample_result_def)
  from overall_status_is_stale_until_calculated
      [of "''2026-02-01T10:00:00''" "''HOL-2701''" "[]" "''2027-12-30''" "''2028-12-31''" Url
          "[sample_result ''URL: https://vcenter.lab'' ''WARN'']" empty_report "[]"]
    w nf stale calc
  show ?thesis
    by (simp add: empty_report_def)
qed

section \<open>Status markers\<close>

text \<open>
  C7. \<open>get_status_icon\<close> and \<open>get_status_class\<close> return a value for every string:
  each of the six statuses has its own marker, and every other string maps to the
  fallback icon and to the class \<open>status-unknown\<close>, which no status of the six has.
\<close>

theorem status_markers_total:
  "get_status_icon st =
     (if st \<in> set [''PASS'', ''FAIL'', ''WARN'', ''INFO'', ''SKIPPED'', ''FIXED'']
      then the (map_of icons st) else unknown_icon) \<and>
   get_status_class st =
     (if st = ''PASS'' then ''status-pass''
      else if st = ''FAIL'' then ''status-fail''
      else if st = ''WARN'' then ''status-warn''
      else if st = ''INFO'' then ''status-info''
      else if st = ''SKIPPED'' then ''status-skipped''
      else if st = ''FIXED'' then ''status-fixed''
      else ''status-unknown'') \<and>
   map fst icons = [''PASS'', ''FAIL'', ''WARN'', ''INFO'', ''SKIPPED'', ''FIXED''] \<and>
   get_status_icon ''BOGUS'' = unknown_icon \<and>
   get_status_class ''BOGUS'' = ''status-unknown'' \<and>
   get_status_icon [] = unknown_icon \<and>
   get_status_class [] = ''status-unknown'' \<and>
   unknown_icon \<notin> set (map snd icons) \<and>
   ''status-unknown'' \<notin> set (map snd classes)"
  by (simp add: get_status_icon_def get_status_class_def dict_get_def icons_def classes_def
      unknown_icon_def)

section \<open>Rendering and serialization by category\<close>











section \<open>Stability of serialization\<close>






section \<open>Exit code\<close>








end
